theory Spec2Isabelle
  imports Main
begin

section \<open>The language-mode registry of \<open>embeddedSupport/languageModes.ts\<close>\<close>

subsection \<open>Documents, ranges and modes\<close>

text \<open>
  \<open>LanguageId\<close> is a union of string literals declared in \<open>embeddedSupport.ts\<close>; the
  registry only uses it as a property key, so it is a string here. The identifier
  of a range comes from the document (the \<open>lang\<close> attribute of a block), so at run
  time it can be any string.
\<close>

type_synonym LanguageId = string

record Position =
  line :: nat
  character :: nat

text \<open>A \<open>TextDocument\<close>: its identity, its version and its content.\<close>

record TextDocument =
  uri :: string
  version :: int
  getText :: string

text \<open>
  A \<open>LanguageMode\<close> is an object built by one of the factories of \<open>modes/\<close>. The
  registry never looks inside it: it stores the reference, hands it out and calls
  \<open>onDocumentRemoved\<close> and \<open>dispose\<close> on it. A mode is therefore its object identity,
  and two modes are the same instance exactly when they are equal.
\<close>

datatype LanguageMode = LanguageMode nat

text \<open>
  A property read \<open>o[k]\<close> looks in the object itself and then along its prototype
  chain. The table of modes is a plain object, so it inherits the properties of
  \<open>Object.prototype\<close>: functions such as the one under \<open>constructor\<close>, and under
  \<open>__proto__\<close> the prototype object itself. Every one of them is truthy and none is a
  mode. What a read of the table gives, when it gives anything, is therefore a mode
  stored in the table or the value inherited under that name.
\<close>

definition Object_prototype :: "string list" where
  "Object_prototype =
     [''constructor'', ''__defineGetter__'', ''__defineSetter__'', ''hasOwnProperty'',
      ''__lookupGetter__'', ''__lookupSetter__'', ''isPrototypeOf'',
      ''propertyIsEnumerable'', ''toString'', ''valueOf'', ''__proto__'',
      ''toLocaleString'']"

datatype property = Mode LanguageMode | Inherited string

text \<open>
  \<open>LanguageRange extends Range\<close> with \<open>languageId\<close> and the optional \<open>attributeValue\<close>;
  the field \<open>end\<close> of the source is \<open>range_end\<close> here.
\<close>

record LanguageRange =
  languageId :: LanguageId
  start :: Position
  range_end :: Position
  attributeValue :: "bool option"

text \<open>
  \<open>interface LanguageModeRange extends LanguageRange { mode: LanguageMode }\<close>. The field
  holds whatever the read of the table gave.
\<close>

record LanguageModeRange = LanguageRange +
  mode :: property

text \<open>
  The two methods of \<open>VueDocumentRegions\<close> that the registry calls. The segmentation
  itself (\<open>getVueDocumentRegions\<close>) is a parameter of the model.
\<close>

record VueDocumentRegions =
  getAllLanguageRanges :: "LanguageRange list"
  getLanguageAtPosition :: "Position \<Rightarrow> LanguageId"

subsection \<open>The language model cache\<close>

text \<open>
  Modelled from the spec: \<open>languageModelCache.ts\<close> is not part of the sources at hand.
  A cache entry holds the version it was computed for and the computed value; the
  entries are kept most recently used first, which stands for the last access time.
  The cache is bounded by \<open>maxEntries\<close>; the periodic sweep by age is driven by a
  timer and is not part of the model, only whether the timer is still held
  (\<open>sweeping\<close>).
\<close>

record 'v CacheEntry =
  entry_version :: int
  entry_value :: 'v

record 'v LanguageModelCache =
  maxEntries :: nat
  compute :: "TextDocument \<Rightarrow> 'v"
  entries :: "(string \<times> 'v CacheEntry) list"
  sweeping :: bool

text \<open>
  Modelled from the spec: a new cache with capacity \<open>n\<close>, sweep interval \<open>secs\<close> and
  the function that computes the model of a document.
\<close>

definition getLanguageModelCache ::
  "nat \<Rightarrow> nat \<Rightarrow> (TextDocument \<Rightarrow> 'v) \<Rightarrow> 'v LanguageModelCache" where
  "getLanguageModelCache n secs parse =
     \<lparr>maxEntries = n, compute = parse, entries = [], sweeping = (0 < secs)\<rparr>"

definition evict :: "string \<Rightarrow> (string \<times> 'e) list \<Rightarrow> (string \<times> 'e) list" where
  "evict u es = filter (\<lambda>ke. fst ke \<noteq> u) es"

text \<open>
  Modelled from the spec: \<open>get\<close> returns the cached value of the document's identity
  when the cached version is the document's version; otherwise it recomputes, stores
  the value under the identity with the new version and returns it. Over capacity the
  least recently used entries go.
\<close>

definition cache_get ::
  "TextDocument \<Rightarrow> 'v LanguageModelCache \<Rightarrow> 'v \<times> 'v LanguageModelCache" where
  "cache_get d c =
     (let recompute =
            (let v = compute c d in
             (v, c\<lparr>entries := take (maxEntries c)
                     ((uri d, \<lparr>entry_version = version d, entry_value = v\<rparr>)
                      # evict (uri d) (entries c))\<rparr>))
      in case map_of (entries c) (uri d) of
           None \<Rightarrow> recompute
         | Some e \<Rightarrow>
             if entry_version e = version d
             then (entry_value e, c\<lparr>entries := (uri d, e) # evict (uri d) (entries c)\<rparr>)
             else recompute)"

text \<open>
  Modelled from the spec: \<open>onDocumentRemoved\<close> evicts the entry of the document's
  identity at once.
\<close>

definition cache_onDocumentRemoved ::
  "TextDocument \<Rightarrow> 'v LanguageModelCache \<Rightarrow> 'v LanguageModelCache" where
  "cache_onDocumentRemoved d c = c\<lparr>entries := evict (uri d) (entries c)\<rparr>"

text \<open>
  Modelled from the spec: \<open>dispose\<close> evicts everything and releases the periodic
  sweep.
\<close>

definition cache_dispose :: "'v LanguageModelCache \<Rightarrow> 'v LanguageModelCache" where
  "cache_dispose c = c\<lparr>entries := [], sweeping := False\<rparr>"

subsection \<open>The registry object and the world around it\<close>

text \<open>
  Reading or writing a property of \<open>undefined\<close>, and calling a method on
  \<open>undefined\<close>, raise a \<open>TypeError\<close>.
\<close>

datatype error = TypeError

text \<open>
  Calls that the registry makes on objects it does not own are logged in the order in
  which they happen: the two required hooks of a mode, and the two hooks of a cache
  (named by its address in the store). A hook is taken to return; what a mode does
  inside its hook is not part of the registry.
\<close>

datatype call =
    ModeOnDocumentRemoved LanguageMode TextDocument
  | ModeDispose LanguageMode
  | CacheOnDocumentRemoved nat TextDocument
  | CacheDispose nat

text \<open>
  The three fields of \<open>class LanguageModes\<close>, and the two parts of the world its
  methods act on.

  \<^item> \<open>modes\<close> is a JavaScript object used as a table from \<open>LanguageId\<close> to mode: an
    association list in insertion order, the order in which \<open>for ... in\<close> visits the
    keys. The field is declared without an initialiser and \<open>dispose\<close> deletes it, so
    it can be \<open>undefined\<close>: \<open>None\<close>.
  \<^item> \<open>documentRegions\<close> and the elements of \<open>modelCaches\<close> are references to cache
    objects: the constructor pushes the very object of \<open>documentRegions\<close> onto
    \<open>modelCaches\<close>. They are addresses into \<open>store\<close>.
  \<^item> \<open>store\<close> holds the cache objects, \<open>calls\<close> is the log of hook calls made so far.
\<close>

record LanguageModes =
  modes :: "(LanguageId \<times> LanguageMode) list option"
  documentRegions :: nat
  modelCaches :: "nat list"
  store :: "nat \<Rightarrow> VueDocumentRegions LanguageModelCache"
  calls :: "call list"

text \<open>
  The constructor, given the world it runs in (\<open>store\<close> with a free address \<open>a\<close>, the
  log so far) and the segmentation function: it creates the cache of document regions
  with capacity 10 and interval 60 and pushes it onto the empty \<open>modelCaches\<close>. It
  does not assign \<open>modes\<close>.
\<close>

definition constructor ::
  "(TextDocument \<Rightarrow> VueDocumentRegions) \<Rightarrow> nat
     \<Rightarrow> (nat \<Rightarrow> VueDocumentRegions LanguageModelCache) \<Rightarrow> call list \<Rightarrow> LanguageModes" where
  "constructor getVueDocumentRegions a st log =
     \<lparr>modes = None,
      documentRegions = a,
      modelCaches = [] @ [a],
      store = st(a := getLanguageModelCache 10 60 (\<lambda>document. getVueDocumentRegions document)),
      calls = log\<rparr>"

subsection \<open>Property access on the table of modes\<close>

text \<open>
  \<open>o[k] = v\<close> for the keys that \<open>init\<close> writes, none of which is \<open>__proto__\<close>: an
  existing key keeps its place, a new key goes last.
\<close>

fun assign :: "'k \<Rightarrow> 'v \<Rightarrow> ('k \<times> 'v) list \<Rightarrow> ('k \<times> 'v) list" where
  "assign k v [] = [(k, v)]"
| "assign k v (kv # kvs) = (if fst kv = k then (k, v) # kvs else kv # assign k v kvs)"

text \<open>
  \<open>o[k]\<close> on a table: the mode stored under \<open>k\<close>; without such a key, the value
  inherited from \<open>Object.prototype\<close> when \<open>k\<close> names one; otherwise \<open>undefined\<close>
  (\<open>None\<close>).
\<close>

definition get_property :: "(LanguageId \<times> LanguageMode) list \<Rightarrow> LanguageId \<Rightarrow> property option" where
  "get_property m k =
     (case map_of m k of
        Some md \<Rightarrow> Some (Mode md)
      | None \<Rightarrow> if k \<in> set Object_prototype then Some (Inherited k) else None)"

text \<open>
  \<open>this.modes[k]\<close>: a \<open>TypeError\<close> when \<open>this.modes\<close> is \<open>undefined\<close>, otherwise the
  read of the table.
\<close>

definition modes_at :: "LanguageModes \<Rightarrow> LanguageId \<Rightarrow> error + property option" where
  "modes_at s k = (case modes s of None \<Rightarrow> Inl TypeError | Some m \<Rightarrow> Inr (get_property m k))"

text \<open>\<open>this.documentRegions.get(document)\<close>: the cache object is updated in the store.\<close>

definition documentRegions_get ::
  "LanguageModes \<Rightarrow> TextDocument \<Rightarrow> VueDocumentRegions \<times> LanguageModes" where
  "documentRegions_get s document =
     (let (regions, c) = cache_get document (store s (documentRegions s))
      in (regions, s\<lparr>store := (store s)(documentRegions s := c)\<rparr>))"

subsection \<open>The methods of \<open>LanguageModes\<close>\<close>

text \<open>
  A method returns its result, or the error it raised, and the registry and world it
  leaves behind.

  \<open>init\<close>: the modes come from factories of \<open>modes/\<close> that are outside the
  sources at hand; what they returned is the parameter \<open>f\<close>. \<open>jsMode\<close> and
  \<open>vueHtmlMode\<close> are built first, then ten assignments into \<open>this.modes\<close> follow,
  the first of which raises when \<open>this.modes\<close> is \<open>undefined\<close>.
\<close>

record factories =
  vueHtmlMode :: LanguageMode
  jsMode :: LanguageMode
  getVueMode :: LanguageMode
  getCSSMode :: LanguageMode
  getPostCSSMode :: LanguageMode
  getSCSSMode :: LanguageMode
  getLESSMode :: LanguageMode
  getStylusMode :: LanguageMode

definition init :: "LanguageModes \<Rightarrow> factories \<Rightarrow> (error + unit) \<times> LanguageModes" where
  "init s f =
     (case modes s of
        None \<Rightarrow> (Inl TypeError, s)
      | Some m \<Rightarrow>
          (Inr (),
           s\<lparr>modes := Some (foldl (\<lambda>table kv. assign (fst kv) (snd kv) table) m
              [(''vue'', getVueMode f),
               (''vue-html'', vueHtmlMode f),
               (''css'', getCSSMode f),
               (''postcss'', getPostCSSMode f),
               (''scss'', getSCSSMode f),
               (''less'', getLESSMode f),
               (''stylus'', getStylusMode f),
               (''javascript'', jsMode f),
               (''typescript'', jsMode f),
               (''tsx'', jsMode f)])\<rparr>))"

definition getModeAtPosition ::
  "LanguageModes \<Rightarrow> TextDocument \<Rightarrow> Position
     \<Rightarrow> (error + property option) \<times> LanguageModes" where
  "getModeAtPosition s document position =
     (let (regions, s1) = documentRegions_get s document;
          lid = getLanguageAtPosition regions position
      in (modes_at s1 lid, s1))"

text \<open>
  The object \<open>{ mode, ...lr }\<close>: the properties of the range, copied, and what the
  read of the table gave.
\<close>

definition withMode :: "property \<Rightarrow> LanguageRange \<Rightarrow> LanguageModeRange" where
  "withMode v lr =
     \<lparr>languageId = languageId lr, start = start lr, range_end = range_end lr,
      attributeValue = attributeValue lr, mode = v\<rparr>"

text \<open>
  The callback of \<open>forEach\<close> in \<open>getAllLanguageModeRangesInDocument\<close>, run over the
  ranges in order: \<open>this.modes[lr.languageId]\<close> raises when the table is \<open>undefined\<close>;
  a range for which the read gives \<open>undefined\<close> is skipped, any other is pushed with
  what the read gave (every other value is truthy).
\<close>

fun pushRanges ::
  "LanguageModes \<Rightarrow> LanguageRange list \<Rightarrow> LanguageModeRange list
     \<Rightarrow> error + LanguageModeRange list" where
  "pushRanges s [] result = Inr result"
| "pushRanges s (lr # lrs) result =
     (case modes_at s (languageId lr) of
        Inl e \<Rightarrow> Inl e
      | Inr None \<Rightarrow> pushRanges s lrs result
      | Inr (Some v) \<Rightarrow> pushRanges s lrs (result @ [withMode v lr]))"

definition getAllLanguageModeRangesInDocument ::
  "LanguageModes \<Rightarrow> TextDocument \<Rightarrow> (error + LanguageModeRange list) \<times> LanguageModes" where
  "getAllLanguageModeRangesInDocument s document =
     (let (regions, s1) = documentRegions_get s document
      in (pushRanges s1 (getAllLanguageRanges regions) [], s1))"

text \<open>
  \<open>for (const languageId in this.modes)\<close> visits the keys of the table in insertion
  order, and no key at all when \<open>this.modes\<close> is \<open>undefined\<close>. The properties of
  \<open>Object.prototype\<close> are not enumerable, so the loop visits own keys only, and the
  read \<open>this.modes[languageId]\<close> in its body finds the mode stored under the key.
\<close>

definition keys_in :: "LanguageModes \<Rightarrow> LanguageId list" where
  "keys_in s = (case modes s of None \<Rightarrow> [] | Some m \<Rightarrow> map fst m)"

fun pushModes :: "(LanguageId \<times> LanguageMode) list \<Rightarrow> LanguageId list
     \<Rightarrow> LanguageMode list \<Rightarrow> LanguageMode list" where
  "pushModes m [] result = result"
| "pushModes m (k # ks) result =
     (case map_of m k of
        None \<Rightarrow> pushModes m ks result
      | Some md \<Rightarrow> pushModes m ks (result @ [md]))"

definition getAllModes :: "LanguageModes \<Rightarrow> LanguageMode list" where
  "getAllModes s = (case modes s of None \<Rightarrow> [] | Some m \<Rightarrow> pushModes m (keys_in s) [])"

definition getMode :: "LanguageModes \<Rightarrow> LanguageId \<Rightarrow> error + property option" where
  "getMode s lid = modes_at s lid"

text \<open>
  \<open>for (const mode in this.modes) this.modes[mode].hook(...)\<close>, the loop shared by
  \<open>onDocumentRemoved\<close> and \<open>dispose\<close>: for each key the mode under it is looked up
  and its hook is called, which is logged. There is no test of the mode here, so an
  \<open>undefined\<close> one raises.
\<close>

fun callModes :: "(LanguageMode \<Rightarrow> call) \<Rightarrow> (LanguageId \<times> LanguageMode) list
     \<Rightarrow> LanguageId list \<Rightarrow> call list \<Rightarrow> (error + unit) \<times> call list" where
  "callModes hook m [] log = (Inr (), log)"
| "callModes hook m (k # ks) log =
     (case map_of m k of
        None \<Rightarrow> (Inl TypeError, log)
      | Some md \<Rightarrow> callModes hook m ks (log @ [hook md]))"

text \<open>\<open>this.modelCaches.forEach(mc => mc.onDocumentRemoved(document))\<close>\<close>

definition cachesOnDocumentRemoved :: "LanguageModes \<Rightarrow> TextDocument \<Rightarrow> LanguageModes" where
  "cachesOnDocumentRemoved s document =
     foldl (\<lambda>w mc. w\<lparr>store := (store w)(mc := cache_onDocumentRemoved document (store w mc)),
                     calls := calls w @ [CacheOnDocumentRemoved mc document]\<rparr>)
       s (modelCaches s)"

definition onDocumentRemoved ::
  "LanguageModes \<Rightarrow> TextDocument \<Rightarrow> (error + unit) \<times> LanguageModes" where
  "onDocumentRemoved s document =
     (let s1 = cachesOnDocumentRemoved s document
      in case modes s1 of
           None \<Rightarrow> (Inr (), s1)
         | Some m \<Rightarrow>
             (let (r, log) = callModes (\<lambda>md. ModeOnDocumentRemoved md document) m
                               (keys_in s1) (calls s1)
              in (r, s1\<lparr>calls := log\<rparr>)))"

text \<open>\<open>this.modelCaches.forEach(mc => mc.dispose())\<close>\<close>

definition cachesDispose :: "LanguageModes \<Rightarrow> LanguageModes" where
  "cachesDispose s =
     foldl (\<lambda>w mc. w\<lparr>store := (store w)(mc := cache_dispose (store w mc)),
                     calls := calls w @ [CacheDispose mc]\<rparr>)
       s (modelCaches s)"

text \<open>
  \<open>dispose\<close>: the caches are disposed, \<open>modelCaches\<close> becomes empty, every key's mode
  is disposed, and \<open>delete this.modes\<close> leaves the field \<open>undefined\<close>.
\<close>

definition dispose :: "LanguageModes \<Rightarrow> (error + unit) \<times> LanguageModes" where
  "dispose s =
     (let s1 = cachesDispose s;
          s2 = s1\<lparr>modelCaches := []\<rparr>
      in case modes s2 of
           None \<Rightarrow> (Inr (), s2\<lparr>modes := None\<rparr>)
         | Some m \<Rightarrow>
             (let (r, log) = callModes ModeDispose m (keys_in s2) (calls s2);
                  s3 = s2\<lparr>calls := log\<rparr>
              in case r of
                   Inl e \<Rightarrow> (Inl e, s3)
                 | Inr u \<Rightarrow> (Inr (), s3\<lparr>modes := None\<rparr>)))"

text \<open>The calls a method added to the log: those of \<open>s'\<close> after the ones of \<open>s\<close>.\<close>

definition new_calls :: "LanguageModes \<Rightarrow> LanguageModes \<Rightarrow> call list" where
  "new_calls s s' = drop (length (calls s)) (calls s')"

subsection \<open>A concrete registry\<close>

text \<open>
  A segmentation with a template region, a region in a dialect that \<open>init\<close> does not
  register (\<open>sass\<close>) and a script region; a document; and the modes handed out by the
  factories, all different objects.
\<close>

definition example_regions :: "TextDocument \<Rightarrow> VueDocumentRegions" where
  "example_regions document =
     \<lparr>getAllLanguageRanges =
        [\<lparr>languageId = ''vue-html'', start = \<lparr>line = 0, character = 0\<rparr>,
          range_end = \<lparr>line = 2, character = 11\<rparr>, attributeValue = None\<rparr>,
         \<lparr>languageId = ''sass'', start = \<lparr>line = 3, character = 0\<rparr>,
          range_end = \<lparr>line = 5, character = 8\<rparr>, attributeValue = None\<rparr>,
         \<lparr>languageId = ''typescript'', start = \<lparr>line = 6, character = 0\<rparr>,
          range_end = \<lparr>line = 9, character = 9\<rparr>, attributeValue = Some False\<rparr>],
      getLanguageAtPosition =
        (\<lambda>p. if line p < 3 then ''vue-html''
             else if line p < 6 then ''sass''
             else if line p < 10 then ''typescript'' else ''vue'')\<rparr>"

definition example_document :: TextDocument where
  "example_document = \<lparr>uri = ''file:///App.vue'', version = 1, getText = []\<rparr>"

definition example_factories :: factories where
  "example_factories =
     \<lparr>vueHtmlMode = LanguageMode 1, jsMode = LanguageMode 2, getVueMode = LanguageMode 3,
      getCSSMode = LanguageMode 4, getPostCSSMode = LanguageMode 5,
      getSCSSMode = LanguageMode 6, getLESSMode = LanguageMode 7,
      getStylusMode = LanguageMode 8\<rparr>"

text \<open>\<open>new LanguageModes()\<close> in a world with no calls made yet.\<close>

definition fresh :: LanguageModes where
  "fresh = constructor example_regions 0 (\<lambda>a. getLanguageModelCache 10 60 example_regions) []"

text \<open>
  On the object the constructor leaves, \<open>init\<close> raises at its first assignment. A
  registry in which \<open>init\<close> has run to its end is one whose \<open>modes\<close> field held an
  object when \<open>init\<close> was called, as the declared type of the field says: here the
  empty object.
\<close>

definition ready :: LanguageModes where
  "ready = snd (init (fresh\<lparr>modes := Some []\<rparr>) example_factories)"

text \<open>
  The segmentation of a document whose script block is written with
  \<open>lang="constructor"\<close>, and the registry over it in which \<open>init\<close> has run.
\<close>

definition inherited_regions :: "TextDocument \<Rightarrow> VueDocumentRegions" where
  "inherited_regions document =
     \<lparr>getAllLanguageRanges =
        [\<lparr>languageId = ''vue-html'', start = \<lparr>line = 0, character = 0\<rparr>,
          range_end = \<lparr>line = 2, character = 11\<rparr>, attributeValue = None\<rparr>,
         \<lparr>languageId = ''constructor'', start = \<lparr>line = 3, character = 0\<rparr>,
          range_end = \<lparr>line = 5, character = 9\<rparr>, attributeValue = None\<rparr>],
      getLanguageAtPosition =
        (\<lambda>p. if line p < 3 then ''vue-html''
             else if line p < 6 then ''constructor'' else ''vue'')\<rparr>"

definition ready_inherited :: LanguageModes where
  "ready_inherited =
     snd (init ((constructor inherited_regions 0
                   (\<lambda>a. getLanguageModelCache 10 60 inherited_regions) [])\<lparr>modes := Some []\<rparr>)
            example_factories)"

section \<open>Properties\<close>

subsection \<open>Tables, loops over keys and the log\<close>

lemma map_of_assign: "map_of (assign k v m) k' = (if k' = k then Some v else map_of m k')"
  by (induction m) auto

lemma callModes_keys:
  "set ks \<subseteq> fst ` set m \<Longrightarrow>
   callModes hook m ks log = (Inr (), log @ map (\<lambda>k. hook (the (map_of m k))) ks)"
proof (induction ks arbitrary: log)
  case Nil
  then show ?case by simp
next
  case (Cons k ks)
  from Cons.prems have "k \<in> fst ` set m" by simp
  then obtain md where "map_of m k = Some md"
    by (metis domD dom_map_of_conv_image_fst)
  with Cons show ?case by simp
qed

lemma pushModes_keys:
  "set ks \<subseteq> fst ` set m \<Longrightarrow>
   map Some (pushModes m ks result) = map Some result @ map (map_of m) ks"
proof (induction ks arbitrary: result)
  case Nil
  then show ?case by simp
next
  case (Cons k ks)
  from Cons.prems have "k \<in> fst ` set m" by simp
  then obtain md where "map_of m k = Some md"
    by (metis domD dom_map_of_conv_image_fst)
  with Cons show ?case by simp
qed

lemma count_hook:
  assumes "inj hook" and "set ks \<subseteq> fst ` set m"
  shows "count_list (map (\<lambda>k. hook (the (map_of m k))) ks) (hook md) =
     length (filter (\<lambda>k. map_of m k = Some md) ks)"
  using assms(2)
proof (induction ks)
  case Nil
  then show ?case by simp
next
  case (Cons k ks)
  from Cons.prems have "k \<in> fst ` set m" by simp
  then obtain md' where "map_of m k = Some md'"
    by (metis domD dom_map_of_conv_image_fst)
  with Cons assms show ?case by (auto dest: injD)
qed

lemma count_cache_calls [simp]:
  "count_list (map CacheDispose mcs) (ModeDispose md) = 0"
  "count_list (map (\<lambda>mc. CacheOnDocumentRemoved mc d) mcs) (ModeOnDocumentRemoved md d') = 0"
  by (induction mcs) simp_all

lemma count_mode_calls_cache [simp]:
  "count_list (map (\<lambda>k. ModeOnDocumentRemoved (g k) d) ks) (CacheOnDocumentRemoved a d') = 0"
  by (induction ks) simp_all

lemma count_cache_removed:
  "count_list (map (\<lambda>mc. CacheOnDocumentRemoved mc d) mcs) (CacheOnDocumentRemoved a d)
     = count_list mcs a"
  by (induction mcs) simp_all

lemma count_list_append: "count_list (xs @ ys) x = count_list xs x + count_list ys x"
  by (induction xs) simp_all

subsection \<open>The loops over the caches\<close>

lemma caches_fold:
  "foldl (\<lambda>w mc. w\<lparr>store := (store w)(mc := f (store w mc)), calls := calls w @ [h mc]\<rparr>) s mcs
   = s\<lparr>store := foldl (\<lambda>st mc. st(mc := f (st mc))) (store s) mcs,
        calls := calls s @ map h mcs\<rparr>"
  by (induction mcs arbitrary: s) simp_all

lemma store_fold_at:
  assumes "\<And>c. f (f c) = f c"
  shows "foldl (\<lambda>st mc. st(mc := f (st mc))) st mcs a
           = (if a \<in> set mcs then f (st a) else st a)"
proof (induction mcs arbitrary: st)
  case Nil
  then show ?case by simp
next
  case (Cons mc mcs)
  have "foldl (\<lambda>st mc. st(mc := f (st mc))) st (mc # mcs) a
      = foldl (\<lambda>st mc. st(mc := f (st mc))) (st(mc := f (st mc))) mcs a"
    by simp
  also have "\<dots> = (if a \<in> set mcs then f ((st(mc := f (st mc))) a)
                    else (st(mc := f (st mc))) a)"
    by (rule Cons.IH)
  also have "\<dots> = (if a \<in> set (mc # mcs) then f (st a) else st a)"
    by (simp add: assms)
  finally show ?case .
qed

lemma store_fold_idem:
  assumes "\<And>c. f (f c) = f c"
  shows "foldl (\<lambda>st mc. st(mc := f (st mc))) st mcs
           = (\<lambda>a. if a \<in> set mcs then f (st a) else st a)"
  by (rule ext) (rule store_fold_at [OF assms])

lemma cache_onDocumentRemoved_idem:
  "cache_onDocumentRemoved d (cache_onDocumentRemoved d c) = cache_onDocumentRemoved d c"
  by (simp add: cache_onDocumentRemoved_def evict_def)

lemma cachesOnDocumentRemoved_eq:
  "cachesOnDocumentRemoved s d =
     s\<lparr>store := (\<lambda>a. if a \<in> set (modelCaches s)
                      then cache_onDocumentRemoved d (store s a) else store s a),
       calls := calls s @ map (\<lambda>mc. CacheOnDocumentRemoved mc d) (modelCaches s)\<rparr>"
  unfolding cachesOnDocumentRemoved_def
  by (simp add: caches_fold
        [where f = "cache_onDocumentRemoved d" and h = "\<lambda>mc. CacheOnDocumentRemoved mc d"]
      store_fold_idem [of "cache_onDocumentRemoved d", OF cache_onDocumentRemoved_idem])

lemma cache_dispose_idem: "cache_dispose (cache_dispose c) = cache_dispose c"
  by (simp add: cache_dispose_def)

lemma cachesDispose_eq:
  "cachesDispose s =
     s\<lparr>store := (\<lambda>a. if a \<in> set (modelCaches s) then cache_dispose (store s a) else store s a),
       calls := calls s @ map CacheDispose (modelCaches s)\<rparr>"
  unfolding cachesDispose_def
  by (simp add: caches_fold [where f = cache_dispose and h = CacheDispose]
      store_fold_idem [of cache_dispose, OF cache_dispose_idem])

subsection \<open>What \<open>onDocumentRemoved\<close> and \<open>dispose\<close> do\<close>

lemma onDocumentRemoved_Some:
  assumes "modes s = Some m"
  shows "onDocumentRemoved s d =
    (Inr (), (cachesOnDocumentRemoved s d)
       \<lparr>calls := calls s @ map (\<lambda>mc. CacheOnDocumentRemoved mc d) (modelCaches s)
                  @ map (\<lambda>k. ModeOnDocumentRemoved (the (map_of m k)) d) (map fst m)\<rparr>)"
proof -
  have "set (map fst m) \<subseteq> fst ` set m" by simp
  from callModes_keys [OF this]
  show ?thesis using assms
    by (simp add: onDocumentRemoved_def Let_def cachesOnDocumentRemoved_eq keys_in_def)
qed

lemma onDocumentRemoved_None:
  assumes "modes s = None"
  shows "onDocumentRemoved s d = (Inr (), cachesOnDocumentRemoved s d)"
  using assms by (simp add: onDocumentRemoved_def Let_def cachesOnDocumentRemoved_eq)

lemma dispose_Some:
  assumes "modes s = Some m"
  shows "dispose s =
    (Inr (), (cachesDispose s)
       \<lparr>modes := None, modelCaches := [],
        calls := calls s @ map CacheDispose (modelCaches s)
                  @ map (\<lambda>k. ModeDispose (the (map_of m k))) (map fst m)\<rparr>)"
proof -
  have "set (map fst m) \<subseteq> fst ` set m" by simp
  from callModes_keys [OF this]
  show ?thesis using assms
    by (simp add: dispose_def Let_def cachesDispose_eq keys_in_def)
qed

lemma dispose_None:
  assumes "modes s = None"
  shows "dispose s = (Inr (), (cachesDispose s)\<lparr>modelCaches := []\<rparr>)"
  using assms by (simp add: dispose_def Let_def cachesDispose_eq)

subsection \<open>The concrete registry\<close>

lemma modes_ready:
  "modes ready = Some
     [(''vue'', LanguageMode 3), (''vue-html'', LanguageMode 1), (''css'', LanguageMode 4),
      (''postcss'', LanguageMode 5), (''scss'', LanguageMode 6), (''less'', LanguageMode 7),
      (''stylus'', LanguageMode 8), (''javascript'', LanguageMode 2),
      (''typescript'', LanguageMode 2), (''tsx'', LanguageMode 2)]"
  by (simp add: ready_def init_def fresh_def constructor_def example_factories_def)

lemma documentRegions_ready: "documentRegions ready = 0"
  by (simp add: ready_def init_def fresh_def constructor_def)

lemma modelCaches_ready: "modelCaches ready = [0]"
  by (simp add: ready_def init_def fresh_def constructor_def)

lemma store_ready: "store ready 0 = getLanguageModelCache 10 60 example_regions"
  by (simp add: ready_def init_def fresh_def constructor_def)

subsection \<open>Reading the table\<close>

lemma map_of_key: "map_of m k = Some v \<Longrightarrow> k \<in> set (map fst m)"
  by (induction m) (auto split: if_splits)

lemma getAllModes_Some:
  assumes "modes s = Some m"
  shows "map Some (getAllModes s) = map (map_of m) (map fst m)"
proof -
  have "set (map fst m) \<subseteq> fst ` set m" by simp
  from pushModes_keys [OF this, of "[]"] show ?thesis
    using assms by (simp add: getAllModes_def keys_in_def)
qed

lemma count_list_map_Some: "count_list (map Some xs) (Some x) = count_list xs x"
  by (induction xs) simp_all

lemma count_list_map_filter: "count_list (map g ks) y = length (filter (\<lambda>k. g k = y) ks)"
  by (induction ks) simp_all

lemma three_keys_count:
  assumes "k1 \<in> set ks" "k2 \<in> set ks" "k3 \<in> set ks"
    and "k1 \<noteq> k2" "k1 \<noteq> k3" "k2 \<noteq> k3"
    and "g k1 = y" "g k2 = y" "g k3 = y"
  shows "3 \<le> length (filter (\<lambda>k. g k = y) ks)"
proof -
  have "{k1, k2, k3} \<subseteq> set (filter (\<lambda>k. g k = y) ks)"
    using assms by simp
  then have "card {k1, k2, k3} \<le> card (set (filter (\<lambda>k. g k = y) ks))"
    by (intro card_mono) simp_all
  also have "\<dots> \<le> length (filter (\<lambda>k. g k = y) ks)"
    by (rule card_length)
  finally show ?thesis using assms(4-6) by simp
qed

lemma init_Some:
  assumes "modes s = Some m"
  shows "init s f = (Inr (), s\<lparr>modes := Some
     (assign ''tsx'' (jsMode f) (assign ''typescript'' (jsMode f) (assign ''javascript'' (jsMode f)
      (assign ''stylus'' (getStylusMode f) (assign ''less'' (getLESSMode f)
      (assign ''scss'' (getSCSSMode f) (assign ''postcss'' (getPostCSSMode f)
      (assign ''css'' (getCSSMode f) (assign ''vue-html'' (vueHtmlMode f)
      (assign ''vue'' (getVueMode f) m))))))))))\<rparr>)"
  using assms by (simp add: init_def)

lemma getAllModes_ready:
  "getAllModes ready =
     [LanguageMode 3, LanguageMode 1, LanguageMode 4, LanguageMode 5, LanguageMode 6,
      LanguageMode 7, LanguageMode 8, LanguageMode 2, LanguageMode 2, LanguageMode 2]"
  by (simp add: getAllModes_def keys_in_def modes_ready)

subsection \<open>Dispatch through the cache of document regions\<close>

lemma documentRegions_get_fields:
  "modes (snd (documentRegions_get s d)) = modes s"
  "modelCaches (snd (documentRegions_get s d)) = modelCaches s"
  "documentRegions (snd (documentRegions_get s d)) = documentRegions s"
  "calls (snd (documentRegions_get s d)) = calls s"
  by (simp_all add: documentRegions_get_def split_beta)

lemma get_property_own: "map_of m k = Some md \<Longrightarrow> get_property m k = Some (Mode md)"
  by (simp add: get_property_def)

lemma get_property_none:
  "map_of m k = None \<Longrightarrow> k \<notin> set Object_prototype \<Longrightarrow> get_property m k = None"
  by (simp add: get_property_def)

lemma modes_at_get: "modes_at (snd (documentRegions_get s d)) k = modes_at s k"
  by (simp add: modes_at_def documentRegions_get_fields)

lemma getModeAtPosition_eq:
  "getModeAtPosition s d p =
     (modes_at s (getLanguageAtPosition (fst (documentRegions_get s d)) p),
      snd (documentRegions_get s d))"
  by (simp add: getModeAtPosition_def split_beta Let_def modes_at_get)

lemma pushRanges_Some:
  assumes "modes s = Some m"
  shows "pushRanges s lrs result =
     Inr (result @ map (\<lambda>lr. withMode (the (get_property m (languageId lr))) lr)
                     (filter (\<lambda>lr. get_property m (languageId lr) \<noteq> None) lrs))"
proof (induction lrs arbitrary: result)
  case Nil
  then show ?case by simp
next
  case (Cons lr lrs)
  show ?case
    by (cases "get_property m (languageId lr)") (simp_all add: modes_at_def assms Cons.IH)
qed

lemma pushRanges_None:
  assumes "modes s = None"
  shows "pushRanges s lrs [] = (if lrs = [] then Inr [] else Inl TypeError)"
  by (cases lrs) (simp_all add: modes_at_def assms)

lemma getAllLanguageModeRangesInDocument_eq:
  "getAllLanguageModeRangesInDocument s d =
     (pushRanges (snd (documentRegions_get s d))
        (getAllLanguageRanges (fst (documentRegions_get s d))) [],
      snd (documentRegions_get s d))"
  by (simp add: getAllLanguageModeRangesInDocument_def split_beta)

lemma truncate_withMode: "LanguageRange.truncate (withMode md lr) = lr"
  by (simp add: withMode_def LanguageRange.truncate_def)

lemma withMode_fields [simp]:
  "languageId (withMode v lr) = languageId lr"
  "mode (withMode v lr) = v"
  by (simp_all add: withMode_def)

lemma pushed_read:
  "\<forall>r \<in> set (map (\<lambda>lr. withMode (the (get_property m (languageId lr))) lr)
                (filter (\<lambda>lr. get_property m (languageId lr) \<noteq> None) lrs)).
     get_property m (languageId r) = Some (mode r)"
  by (auto simp: withMode_def)

lemma get_property_Some_cases:
  "get_property m k = Some v \<Longrightarrow>
     map_option Mode (map_of m k) = Some v \<or> (map_of m k = None \<and> k \<in> set Object_prototype)"
  by (auto simp: get_property_def split: option.splits if_splits)

lemma regions_ready:
  "fst (documentRegions_get ready example_document) = example_regions example_document"
  by (simp add: documentRegions_get_def split_beta documentRegions_ready store_ready
      cache_get_def getLanguageModelCache_def Let_def)

lemma ranges_ready:
  "fst (getAllLanguageModeRangesInDocument ready example_document) =
     Inr [\<lparr>languageId = ''vue-html'', start = \<lparr>line = 0, character = 0\<rparr>,
           range_end = \<lparr>line = 2, character = 11\<rparr>, attributeValue = None,
           mode = Mode (LanguageMode 1)\<rparr>,
          \<lparr>languageId = ''typescript'', start = \<lparr>line = 6, character = 0\<rparr>,
           range_end = \<lparr>line = 9, character = 9\<rparr>, attributeValue = Some False,
           mode = Mode (LanguageMode 2)\<rparr>]"
proof -
  have m: "modes (snd (documentRegions_get ready example_document)) = Some
     [(''vue'', LanguageMode 3), (''vue-html'', LanguageMode 1), (''css'', LanguageMode 4),
      (''postcss'', LanguageMode 5), (''scss'', LanguageMode 6), (''less'', LanguageMode 7),
      (''stylus'', LanguageMode 8), (''javascript'', LanguageMode 2),
      (''typescript'', LanguageMode 2), (''tsx'', LanguageMode 2)]"
    by (simp add: documentRegions_get_fields modes_ready)
  show ?thesis
    by (simp add: getAllLanguageModeRangesInDocument_eq modes_at_def get_property_def
        Object_prototype_def m regions_ready example_regions_def withMode_def)
qed

subsection \<open>After \<open>onDocumentRemoved\<close> and after \<open>dispose\<close>\<close>

lemma onDocumentRemoved_ok: "fst (onDocumentRemoved s d) = Inr ()"
  by (cases "modes s") (simp_all add: onDocumentRemoved_None onDocumentRemoved_Some)

lemma onDocumentRemoved_fields:
  "modes (snd (onDocumentRemoved s d)) = modes s"
  "documentRegions (snd (onDocumentRemoved s d)) = documentRegions s"
  "modelCaches (snd (onDocumentRemoved s d)) = modelCaches s"
  "store (snd (onDocumentRemoved s d)) =
     (\<lambda>a. if a \<in> set (modelCaches s) then cache_onDocumentRemoved d (store s a) else store s a)"
  by (cases "modes s";
      simp add: onDocumentRemoved_None onDocumentRemoved_Some cachesOnDocumentRemoved_eq)+

lemma dispose_ok: "fst (dispose s) = Inr ()"
  by (cases "modes s") (simp_all add: dispose_None dispose_Some)

lemma dispose_fields:
  "modes (snd (dispose s)) = None"
  "modelCaches (snd (dispose s)) = []"
  by (cases "modes s"; simp add: dispose_None dispose_Some cachesDispose_eq)+

subsection \<open>The registry over the document with an inherited name\<close>

lemma modes_ready_inherited:
  "modes ready_inherited = Some
     [(''vue'', LanguageMode 3), (''vue-html'', LanguageMode 1), (''css'', LanguageMode 4),
      (''postcss'', LanguageMode 5), (''scss'', LanguageMode 6), (''less'', LanguageMode 7),
      (''stylus'', LanguageMode 8), (''javascript'', LanguageMode 2),
      (''typescript'', LanguageMode 2), (''tsx'', LanguageMode 2)]"
  by (simp add: ready_inherited_def init_def constructor_def example_factories_def)

lemma regions_ready_inherited:
  "fst (documentRegions_get ready_inherited example_document)
     = inherited_regions example_document"
  by (simp add: documentRegions_get_def split_beta ready_inherited_def init_def
      constructor_def cache_get_def getLanguageModelCache_def Let_def)

lemma ranges_ready_inherited:
  "fst (getAllLanguageModeRangesInDocument ready_inherited example_document) =
     Inr [\<lparr>languageId = ''vue-html'', start = \<lparr>line = 0, character = 0\<rparr>,
           range_end = \<lparr>line = 2, character = 11\<rparr>, attributeValue = None,
           mode = Mode (LanguageMode 1)\<rparr>,
          \<lparr>languageId = ''constructor'', start = \<lparr>line = 3, character = 0\<rparr>,
           range_end = \<lparr>line = 5, character = 9\<rparr>, attributeValue = None,
           mode = Inherited ''constructor''\<rparr>]"
proof -
  have m: "modes (snd (documentRegions_get ready_inherited example_document)) = Some
     [(''vue'', LanguageMode 3), (''vue-html'', LanguageMode 1), (''css'', LanguageMode 4),
      (''postcss'', LanguageMode 5), (''scss'', LanguageMode 6), (''less'', LanguageMode 7),
      (''stylus'', LanguageMode 8), (''javascript'', LanguageMode 2),
      (''typescript'', LanguageMode 2), (''tsx'', LanguageMode 2)]"
    by (simp add: documentRegions_get_fields modes_ready_inherited)
  show ?thesis
    by (simp add: getAllLanguageModeRangesInDocument_eq modes_at_def get_property_def
        Object_prototype_def m regions_ready_inherited inherited_regions_def withMode_def)
qed

lemma ranges_disposed_fresh:
  "getAllLanguageRanges (fst (documentRegions_get (snd (dispose fresh)) example_document))
     \<noteq> []"
proof -
  have none: "modes fresh = None" and mcs: "modelCaches fresh = [0]"
    and dr: "documentRegions fresh = 0"
    and st: "store fresh 0 = getLanguageModelCache 10 60 example_regions"
    by (simp_all add: fresh_def constructor_def)
  have "documentRegions (snd (dispose fresh)) = 0"
    "store (snd (dispose fresh)) 0 = cache_dispose (store fresh 0)"
    by (simp_all add: dispose_None [OF none] cachesDispose_eq mcs dr)
  then show ?thesis
    by (simp add: documentRegions_get_def split_beta cache_get_def Let_def st
        cache_dispose_def getLanguageModelCache_def example_regions_def)
qed

section \<open>The claims\<close>

subsection \<open>Disposing the registry\<close>

text \<open>
  Claim C1, as the code has it. \<open>dispose\<close> walks the keys of the table and disposes
  the mode under each key, with no record of the instances already disposed. On a
  registry whose table exists it raises nothing, and the number of \<open>dispose()\<close> calls
  an instance receives is the number of keys that resolve to it: once for an
  instance under one key, once per key for an instance under several.
\<close>

theorem dispose_once_per_key:
  assumes "modes s = Some m"
  shows "fst (dispose s) = Inr () \<and>
         count_list (new_calls s (snd (dispose s))) (ModeDispose md)
           = length (filter (\<lambda>k. map_of m k = Some md) (map fst m))"
proof -
  have inj: "inj ModeDispose" by (simp add: inj_def)
  have keys: "set (map fst m) \<subseteq> fst ` set m" by simp
  have ok: "fst (dispose s) = Inr ()"
    by (simp add: dispose_Some [OF assms])
  have new: "new_calls s (snd (dispose s)) =
      map CacheDispose (modelCaches s) @ map (\<lambda>k. ModeDispose (the (map_of m k))) (map fst m)"
    by (simp add: dispose_Some [OF assms] new_calls_def)
  have "count_list (new_calls s (snd (dispose s))) (ModeDispose md)
      = length (filter (\<lambda>k. map_of m k = Some md) (map fst m))"
    unfolding new count_list_append count_hook [OF inj keys] by (simp del: filter_map)
  with ok show ?thesis by simp
qed

text \<open>
  On the concrete registry the shared script mode is disposed three times and the
  mode of \<open>css\<close> once.
\<close>

theorem dispose_once_per_key_witness:
  "modes ready = Some
     [(''vue'', LanguageMode 3), (''vue-html'', LanguageMode 1), (''css'', LanguageMode 4),
      (''postcss'', LanguageMode 5), (''scss'', LanguageMode 6), (''less'', LanguageMode 7),
      (''stylus'', LanguageMode 8), (''javascript'', LanguageMode 2),
      (''typescript'', LanguageMode 2), (''tsx'', LanguageMode 2)] \<and>
   fst (dispose ready) = Inr () \<and>
   count_list (new_calls ready (snd (dispose ready))) (ModeDispose (LanguageMode 2)) = 3 \<and>
   count_list (new_calls ready (snd (dispose ready))) (ModeDispose (LanguageMode 4)) = 1"
  using dispose_once_per_key [OF modes_ready, of "LanguageMode 2"]
        dispose_once_per_key [OF modes_ready, of "LanguageMode 4"]
  by (simp add: modes_ready)

text \<open>
  The statement of C1 itself fails: the three script identifiers resolve to one
  instance, and one call of \<open>dispose\<close> on the registry calls that instance's
  \<open>dispose()\<close> three times.
\<close>

theorem dispose_shared_mode_counterexample:
  "getMode ready ''javascript'' = Inr (Some (Mode (LanguageMode 2))) \<and>
   getMode ready ''typescript'' = Inr (Some (Mode (LanguageMode 2))) \<and>
   getMode ready ''tsx'' = Inr (Some (Mode (LanguageMode 2))) \<and>
   count_list (new_calls ready (snd (dispose ready))) (ModeDispose (LanguageMode 2)) = 3"
  by (simp add: getMode_def modes_at_def get_property_def modes_ready dispose_Some [OF modes_ready]
        new_calls_def count_list_append)

subsection \<open>Enumerating the modes\<close>

text \<open>
  Claim C2, as the code has it. \<open>getAllModes\<close> pushes the mode under every key of the
  table, in the order of the keys, and compares no two of them. When \<open>init\<close> has run
  on a registry whose table exists, the result holds, key by key, the mode under that
  key, and the script mode is in it at least three times: once for each of
  \<open>javascript\<close>, \<open>typescript\<close> and \<open>tsx\<close>.
\<close>

theorem getAllModes_one_per_key:
  assumes "modes s = Some m"
  shows "fst (init s f) = Inr () \<and>
         (\<exists>m'. modes (snd (init s f)) = Some m' \<and>
            map Some (getAllModes (snd (init s f))) = map (map_of m') (map fst m')) \<and>
         3 \<le> count_list (getAllModes (snd (init s f))) (jsMode f)"
proof -
  obtain m' where m': "modes (snd (init s f)) = Some m'"
    and js: "map_of m' ''javascript'' = Some (jsMode f)"
    and ts: "map_of m' ''typescript'' = Some (jsMode f)"
    and tsx: "map_of m' ''tsx'' = Some (jsMode f)"
    by (simp add: init_Some [OF assms] map_of_assign)
  have all: "map Some (getAllModes (snd (init s f))) = map (map_of m') (map fst m')"
    by (rule getAllModes_Some [OF m'])
  have keys: "''javascript'' \<in> set (map fst m')" "''typescript'' \<in> set (map fst m')"
    "''tsx'' \<in> set (map fst m')"
    by (rule map_of_key [OF js], rule map_of_key [OF ts], rule map_of_key [OF tsx])
  have "count_list (getAllModes (snd (init s f))) (jsMode f)
      = count_list (map Some (getAllModes (snd (init s f)))) (Some (jsMode f))"
    by (simp add: count_list_map_Some)
  also have "\<dots> = length (filter (\<lambda>k. map_of m' k = Some (jsMode f)) (map fst m'))"
    unfolding all by (rule count_list_map_filter)
  finally have "3 \<le> count_list (getAllModes (snd (init s f))) (jsMode f)"
    using three_keys_count [OF keys _ _ _ js ts tsx] by simp
  moreover have "fst (init s f) = Inr ()"
    by (simp add: init_Some [OF assms])
  ultimately show ?thesis using m' all by blast
qed

theorem getAllModes_one_per_key_witness:
  "modes (fresh\<lparr>modes := Some []\<rparr>) = Some [] \<and>
   fst (init (fresh\<lparr>modes := Some []\<rparr>) example_factories) = Inr () \<and>
   3 \<le> count_list (getAllModes ready) (LanguageMode 2) \<and>
   length (getAllModes ready) = 10"
  using getAllModes_one_per_key [of "fresh\<lparr>modes := Some []\<rparr>" "[]" example_factories]
  by (simp add: ready_def [symmetric] example_factories_def getAllModes_ready)

text \<open>
  The statement of C2 itself fails: after \<open>init\<close> the result of \<open>getAllModes\<close> has
  the script mode three times.
\<close>

theorem getAllModes_duplicates_counterexample:
  "getAllModes ready =
     [LanguageMode 3, LanguageMode 1, LanguageMode 4, LanguageMode 5, LanguageMode 6,
      LanguageMode 7, LanguageMode 8, LanguageMode 2, LanguageMode 2, LanguageMode 2] \<and>
   \<not> distinct (getAllModes ready)"
  by (simp add: getAllModes_ready)

subsection \<open>Removing a document\<close>

text \<open>
  Claim C3, as the code has it. On a registry whose table exists,
  \<open>onDocumentRemoved\<close> raises nothing, calls the removal hook of every cache listed in
  \<open>modelCaches\<close> (as often as it is listed: once for the cache of document regions
  that the constructor put there), and calls \<open>Mode.onDocumentRemoved\<close> once per key
  of the table: an instance receives as many calls as keys resolve to it.
\<close>

theorem onDocumentRemoved_once_per_key:
  assumes "modes s = Some m"
  shows "fst (onDocumentRemoved s d) = Inr () \<and>
         count_list (new_calls s (snd (onDocumentRemoved s d))) (ModeOnDocumentRemoved md d)
           = length (filter (\<lambda>k. map_of m k = Some md) (map fst m)) \<and>
         count_list (new_calls s (snd (onDocumentRemoved s d))) (CacheOnDocumentRemoved a d)
           = count_list (modelCaches s) a"
proof -
  have inj: "inj (\<lambda>md. ModeOnDocumentRemoved md d)" by (simp add: inj_def)
  have keys: "set (map fst m) \<subseteq> fst ` set m" by simp
  have ok: "fst (onDocumentRemoved s d) = Inr ()"
    by (simp add: onDocumentRemoved_Some [OF assms])
  have new: "new_calls s (snd (onDocumentRemoved s d)) =
      map (\<lambda>mc. CacheOnDocumentRemoved mc d) (modelCaches s)
      @ map (\<lambda>k. ModeOnDocumentRemoved (the (map_of m k)) d) (map fst m)"
    by (simp add: onDocumentRemoved_Some [OF assms] new_calls_def)
  have modes_count:
    "count_list (new_calls s (snd (onDocumentRemoved s d))) (ModeOnDocumentRemoved md d)
      = length (filter (\<lambda>k. map_of m k = Some md) (map fst m))"
    unfolding new count_list_append
      count_hook [of "\<lambda>md. ModeOnDocumentRemoved md d", OF inj keys]
    by (simp del: filter_map)
  have caches_count:
    "count_list (new_calls s (snd (onDocumentRemoved s d))) (CacheOnDocumentRemoved a d)
      = count_list (modelCaches s) a"
    unfolding new count_list_append count_cache_removed by (simp del: map_map)
  from ok modes_count caches_count show ?thesis by simp
qed

theorem onDocumentRemoved_once_per_key_witness:
  "modes ready = Some
     [(''vue'', LanguageMode 3), (''vue-html'', LanguageMode 1), (''css'', LanguageMode 4),
      (''postcss'', LanguageMode 5), (''scss'', LanguageMode 6), (''less'', LanguageMode 7),
      (''stylus'', LanguageMode 8), (''javascript'', LanguageMode 2),
      (''typescript'', LanguageMode 2), (''tsx'', LanguageMode 2)] \<and>
   fst (onDocumentRemoved ready example_document) = Inr () \<and>
   count_list (new_calls ready (snd (onDocumentRemoved ready example_document)))
     (ModeOnDocumentRemoved (LanguageMode 2) example_document) = 3 \<and>
   count_list (new_calls ready (snd (onDocumentRemoved ready example_document)))
     (ModeOnDocumentRemoved (LanguageMode 1) example_document) = 1 \<and>
   count_list (new_calls ready (snd (onDocumentRemoved ready example_document)))
     (CacheOnDocumentRemoved (documentRegions ready) example_document) = 1"
  using onDocumentRemoved_once_per_key
          [OF modes_ready, of example_document "LanguageMode 2" "documentRegions ready"]
        onDocumentRemoved_once_per_key
          [OF modes_ready, of example_document "LanguageMode 1" "documentRegions ready"]
  by (simp add: modes_ready modelCaches_ready documentRegions_ready)

text \<open>
  The statement of C3 itself fails: one call of \<open>onDocumentRemoved\<close> on the registry
  calls the hook of the shared script mode three times.
\<close>

theorem onDocumentRemoved_shared_mode_counterexample:
  "getMode ready ''javascript'' = Inr (Some (Mode (LanguageMode 2))) \<and>
   getMode ready ''typescript'' = Inr (Some (Mode (LanguageMode 2))) \<and>
   getMode ready ''tsx'' = Inr (Some (Mode (LanguageMode 2))) \<and>
   count_list (new_calls ready (snd (onDocumentRemoved ready example_document)))
     (ModeOnDocumentRemoved (LanguageMode 2) example_document) = 3"
  by (simp add: getMode_def modes_at_def get_property_def modes_ready onDocumentRemoved_Some [OF modes_ready]
        new_calls_def count_list_append)

subsection \<open>Before \<open>init\<close>\<close>

text \<open>
  Claim C4, evaluated on the code. The constructor leaves \<open>modes\<close> \<open>undefined\<close>, so
  on a new registry \<open>getMode\<close> and \<open>getModeAtPosition\<close> raise a \<open>TypeError\<close> for
  every identifier, document and position, \<open>getAllLanguageModeRangesInDocument\<close>
  raises as soon as the document has a range, and \<open>init\<close> itself raises at its first
  assignment. Only \<open>getAllModes\<close> returns the empty list.
\<close>

theorem uninitialised_lookup_raises:
  "getMode (constructor g a st log) lid = Inl TypeError \<and>
   fst (getModeAtPosition (constructor g a st log) d p) = Inl TypeError \<and>
   fst (getAllLanguageModeRangesInDocument fresh example_document) = Inl TypeError \<and>
   getAllModes (constructor g a st log) = [] \<and>
   fst (init (constructor g a st log) f) = Inl TypeError"
  by (simp add: getMode_def modes_at_def get_property_def getModeAtPosition_def documentRegions_get_def
      getAllModes_def init_def constructor_def split_beta Let_def fresh_def
      getAllLanguageModeRangesInDocument_def cache_get_def getLanguageModelCache_def
      example_regions_def example_document_def)

subsection \<open>After \<open>dispose\<close>\<close>

text \<open>
  Claim C5, as the code has it. \<open>dispose\<close> never raises; it empties \<open>modelCaches\<close>
  and deletes the table. On the registry it leaves, \<open>getAllModes\<close> returns the empty
  list and \<open>onDocumentRemoved\<close> changes nothing and raises nothing. The lookups read
  a property of the deleted table: \<open>getMode\<close> and \<open>getModeAtPosition\<close> raise a
  \<open>TypeError\<close>, and \<open>getAllLanguageModeRangesInDocument\<close> returns the empty list only
  for a document without ranges and raises otherwise.
\<close>

theorem after_dispose:
  "fst (dispose s) = Inr () \<and>
   getAllModes (snd (dispose s)) = [] \<and>
   onDocumentRemoved (snd (dispose s)) d = (Inr (), snd (dispose s)) \<and>
   getMode (snd (dispose s)) lid = Inl TypeError \<and>
   fst (getModeAtPosition (snd (dispose s)) d p) = Inl TypeError \<and>
   fst (getAllLanguageModeRangesInDocument (snd (dispose s)) d) =
     (if getAllLanguageRanges (fst (documentRegions_get (snd (dispose s)) d)) = []
      then Inr [] else Inl TypeError)"
proof -
  let ?s = "snd (dispose s)"
  have m: "modes ?s = None" and mc: "modelCaches ?s = []"
    by (rule dispose_fields)+
  have "onDocumentRemoved ?s d = (Inr (), ?s)"
    by (simp add: onDocumentRemoved_None [OF m] cachesOnDocumentRemoved_def mc)
  moreover have "getAllModes ?s = []"
    by (simp add: getAllModes_def m)
  moreover have "getMode ?s lid = Inl TypeError"
    by (simp add: getMode_def modes_at_def get_property_def m)
  moreover have "fst (getModeAtPosition ?s d p) = Inl TypeError"
    by (simp add: getModeAtPosition_eq modes_at_def m)
  moreover have "fst (getAllLanguageModeRangesInDocument ?s d) =
     (if getAllLanguageRanges (fst (documentRegions_get ?s d)) = []
      then Inr [] else Inl TypeError)"
    unfolding getAllLanguageModeRangesInDocument_eq fst_conv
    by (rule pushRanges_None) (simp add: documentRegions_get_fields m)
  ultimately show ?thesis by (simp add: dispose_ok)
qed

text \<open>
  The statement of C5 itself fails: after \<open>dispose\<close> on the concrete registry the
  three lookups raise.
\<close>

theorem after_dispose_counterexample:
  "fst (dispose ready) = Inr () \<and>
   getMode (snd (dispose ready)) ''javascript'' = Inl TypeError \<and>
   fst (getModeAtPosition (snd (dispose ready)) example_document \<lparr>line = 7, character = 0\<rparr>)
     = Inl TypeError \<and>
   fst (getAllLanguageModeRangesInDocument (snd (dispose ready)) example_document)
     = Inl TypeError"
proof -
  have m: "modes (snd (dispose ready)) = None"
    by (rule dispose_fields)
  have dr: "documentRegions (snd (dispose ready)) = 0"
    by (simp add: dispose_Some [OF modes_ready] cachesDispose_eq documentRegions_ready)
  have "store (snd (dispose ready)) 0 = cache_dispose (store ready 0)"
    by (simp add: dispose_Some [OF modes_ready] cachesDispose_eq modelCaches_ready)
  then have st: "compute (store (snd (dispose ready)) 0) = example_regions"
    "entries (store (snd (dispose ready)) 0) = []"
    by (simp_all add: store_ready cache_dispose_def getLanguageModelCache_def)
  have "getAllLanguageRanges (fst (documentRegions_get (snd (dispose ready)) example_document))
      \<noteq> []"
    by (simp add: documentRegions_get_def split_beta dr cache_get_def Let_def st
        example_regions_def)
  then show ?thesis
    by (simp add: getMode_def modes_at_def get_property_def m getModeAtPosition_eq dispose_ok
        getAllLanguageModeRangesInDocument_eq pushRanges_None documentRegions_get_fields)
qed

subsection \<open>Dispatch\<close>

text \<open>
  Claim C6, as the code has it. The claim holds on a registry whose table exists and
  for a dialect identifier that is neither a key of the table nor the name of a
  property inherited from \<open>Object.prototype\<close>: nothing is raised,
  \<open>getModeAtPosition\<close> returns \<open>undefined\<close> when such an identifier is the dialect at
  the position, and no region with such an identifier is in the list that
  \<open>getAllLanguageModeRangesInDocument\<close> returns.
\<close>

theorem unregistered_dialect_dropped:
  assumes "modes s = Some m"
  shows "(map_of m (getLanguageAtPosition (fst (documentRegions_get s d)) p) = None \<and>
          getLanguageAtPosition (fst (documentRegions_get s d)) p \<notin> set Object_prototype \<longrightarrow>
            fst (getModeAtPosition s d p) = Inr None) \<and>
         (\<exists>rs. fst (getAllLanguageModeRangesInDocument s d) = Inr rs \<and>
            (\<forall>r \<in> set rs. map_of m (languageId r) = None \<longrightarrow>
                 languageId r \<in> set Object_prototype))"
proof -
  have m': "modes (snd (documentRegions_get s d)) = Some m"
    by (simp add: documentRegions_get_fields assms)
  have at: "map_of m (getLanguageAtPosition (fst (documentRegions_get s d)) p) = None \<and>
          getLanguageAtPosition (fst (documentRegions_get s d)) p \<notin> set Object_prototype \<longrightarrow>
            fst (getModeAtPosition s d p) = Inr None"
    by (simp add: getModeAtPosition_eq modes_at_def assms get_property_none)
  have "\<forall>r \<in> set (map (\<lambda>lr. withMode (the (get_property m (languageId lr))) lr)
                (filter (\<lambda>lr. get_property m (languageId lr) \<noteq> None) lrs)).
          map_of m (languageId r) = None \<longrightarrow> languageId r \<in> set Object_prototype" for lrs
    by (auto dest: get_property_Some_cases)
  then have "\<exists>rs. fst (getAllLanguageModeRangesInDocument s d) = Inr rs \<and>
            (\<forall>r \<in> set rs. map_of m (languageId r) = None \<longrightarrow>
                 languageId r \<in> set Object_prototype)"
    by (simp add: getAllLanguageModeRangesInDocument_eq pushRanges_Some [OF m'])
  with at show ?thesis by blast
qed

text \<open>
  In the concrete document line 4 lies in the \<open>sass\<close> region, a dialect that \<open>init\<close>
  does not register and that names no inherited property: no mode at that position,
  and the region is not in the list.
\<close>

theorem unregistered_dialect_dropped_witness:
  "modes ready = Some
     [(''vue'', LanguageMode 3), (''vue-html'', LanguageMode 1), (''css'', LanguageMode 4),
      (''postcss'', LanguageMode 5), (''scss'', LanguageMode 6), (''less'', LanguageMode 7),
      (''stylus'', LanguageMode 8), (''javascript'', LanguageMode 2),
      (''typescript'', LanguageMode 2), (''tsx'', LanguageMode 2)] \<and>
   getLanguageAtPosition (fst (documentRegions_get ready example_document))
     \<lparr>line = 4, character = 2\<rparr> = ''sass'' \<and>
   ''sass'' \<notin> set Object_prototype \<and>
   getMode ready ''sass'' = Inr None \<and>
   fst (getModeAtPosition ready example_document \<lparr>line = 4, character = 2\<rparr>) = Inr None \<and>
   fst (getAllLanguageModeRangesInDocument ready example_document) =
     Inr [\<lparr>languageId = ''vue-html'', start = \<lparr>line = 0, character = 0\<rparr>,
           range_end = \<lparr>line = 2, character = 11\<rparr>, attributeValue = None,
           mode = Mode (LanguageMode 1)\<rparr>,
          \<lparr>languageId = ''typescript'', start = \<lparr>line = 6, character = 0\<rparr>,
           range_end = \<lparr>line = 9, character = 9\<rparr>, attributeValue = Some False,
           mode = Mode (LanguageMode 2)\<rparr>]"
  using unregistered_dialect_dropped
          [OF modes_ready, of example_document "\<lparr>line = 4, character = 2\<rparr>"]
  by (simp add: modes_ready regions_ready ranges_ready getMode_def modes_at_def
        get_property_def Object_prototype_def example_regions_def)

text \<open>
  The statement of C6 itself fails in two ways. The identifier \<open>constructor\<close> is no
  key of the table, yet the read of the table finds the inherited property: at a
  position of that region \<open>getModeAtPosition\<close> returns it, and the region stays in the
  list. And on a registry without a table, here a new one after \<open>dispose\<close>, no
  dialect has a mode and \<open>getModeAtPosition\<close> raises.
\<close>

theorem unregistered_dialect_counterexample:
  "''constructor'' \<notin> set (keys_in ready_inherited) \<and>
   getLanguageAtPosition (fst (documentRegions_get ready_inherited example_document))
     \<lparr>line = 4, character = 2\<rparr> = ''constructor'' \<and>
   fst (getModeAtPosition ready_inherited example_document \<lparr>line = 4, character = 2\<rparr>)
     = Inr (Some (Inherited ''constructor'')) \<and>
   fst (getAllLanguageModeRangesInDocument ready_inherited example_document) =
     Inr [\<lparr>languageId = ''vue-html'', start = \<lparr>line = 0, character = 0\<rparr>,
           range_end = \<lparr>line = 2, character = 11\<rparr>, attributeValue = None,
           mode = Mode (LanguageMode 1)\<rparr>,
          \<lparr>languageId = ''constructor'', start = \<lparr>line = 3, character = 0\<rparr>,
           range_end = \<lparr>line = 5, character = 9\<rparr>, attributeValue = None,
           mode = Inherited ''constructor''\<rparr>] \<and>
   keys_in (snd (dispose fresh)) = [] \<and>
   fst (getModeAtPosition (snd (dispose fresh)) example_document \<lparr>line = 4, character = 2\<rparr>)
     = Inl TypeError"
proof -
  have "modes (snd (dispose fresh)) = None"
    by (rule dispose_fields)
  then show ?thesis
    by (simp add: keys_in_def modes_ready_inherited regions_ready_inherited
        ranges_ready_inherited getModeAtPosition_eq modes_at_def get_property_def
        Object_prototype_def inherited_regions_def)
qed

text \<open>
  Claim C7. When the document regions that the cache returns for the document give
  dialect \<open>D\<close> at the position and the table has mode \<open>M\<close> under \<open>D\<close>,
  \<open>getModeAtPosition\<close> returns \<open>M\<close>, the very object that \<open>getMode D\<close> returns,
  before and after the call.
\<close>

theorem dispatch_round_trip:
  assumes "modes s = Some m"
    and "getLanguageAtPosition (fst (documentRegions_get s d)) p = D"
    and "map_of m D = Some M"
  shows "fst (getModeAtPosition s d p) = Inr (Some (Mode M)) \<and>
         getMode s D = Inr (Some (Mode M)) \<and>
         getMode (snd (getModeAtPosition s d p)) D = Inr (Some (Mode M))"
  using assms
  by (simp add: getModeAtPosition_eq getMode_def modes_at_def get_property_def
        documentRegions_get_fields)

text \<open>In the concrete document line 7 lies in the \<open>typescript\<close> region.\<close>

theorem dispatch_round_trip_witness:
  "modes ready = Some
     [(''vue'', LanguageMode 3), (''vue-html'', LanguageMode 1), (''css'', LanguageMode 4),
      (''postcss'', LanguageMode 5), (''scss'', LanguageMode 6), (''less'', LanguageMode 7),
      (''stylus'', LanguageMode 8), (''javascript'', LanguageMode 2),
      (''typescript'', LanguageMode 2), (''tsx'', LanguageMode 2)] \<and>
   getLanguageAtPosition (fst (documentRegions_get ready example_document))
     \<lparr>line = 7, character = 0\<rparr> = ''typescript'' \<and>
   fst (getModeAtPosition ready example_document \<lparr>line = 7, character = 0\<rparr>)
     = Inr (Some (Mode (LanguageMode 2))) \<and>
   getMode ready ''typescript'' = Inr (Some (Mode (LanguageMode 2))) \<and>
   getMode (snd (getModeAtPosition ready example_document \<lparr>line = 7, character = 0\<rparr>))
     ''typescript'' = Inr (Some (Mode (LanguageMode 2)))"
proof -
  have D: "getLanguageAtPosition (fst (documentRegions_get ready example_document))
     \<lparr>line = 7, character = 0\<rparr> = ''typescript''"
    by (simp add: regions_ready example_regions_def)
  have M: "map_of
     [(''vue'', LanguageMode 3), (''vue-html'', LanguageMode 1), (''css'', LanguageMode 4),
      (''postcss'', LanguageMode 5), (''scss'', LanguageMode 6), (''less'', LanguageMode 7),
      (''stylus'', LanguageMode 8), (''javascript'', LanguageMode 2),
      (''typescript'', LanguageMode 2), (''tsx'', LanguageMode 2)] ''typescript''
     = Some (LanguageMode 2)"
    by simp
  from dispatch_round_trip [OF modes_ready D M] D show ?thesis
    by (simp add: modes_ready)
qed

subsection \<open>The shared script mode\<close>

text \<open>
  Claim C8. When \<open>init\<close> runs on a registry whose table exists, it runs to its end
  and \<open>getMode\<close> then returns one and the same object, the \<open>jsMode\<close> built by
  \<open>getJavascriptMode\<close>, for \<open>javascript\<close>, \<open>typescript\<close> and \<open>tsx\<close>.
\<close>

theorem init_script_modes_shared:
  assumes "modes s = Some m"
  shows "fst (init s f) = Inr () \<and>
         getMode (snd (init s f)) ''javascript'' = Inr (Some (Mode (jsMode f))) \<and>
         getMode (snd (init s f)) ''typescript'' = Inr (Some (Mode (jsMode f))) \<and>
         getMode (snd (init s f)) ''tsx'' = Inr (Some (Mode (jsMode f)))"
  by (simp add: init_Some [OF assms] getMode_def modes_at_def get_property_def map_of_assign)

theorem init_script_modes_shared_witness:
  "modes (fresh\<lparr>modes := Some []\<rparr>) = Some [] \<and>
   fst (init (fresh\<lparr>modes := Some []\<rparr>) example_factories) = Inr () \<and>
   getMode ready ''javascript'' = Inr (Some (Mode (LanguageMode 2))) \<and>
   getMode ready ''typescript'' = Inr (Some (Mode (LanguageMode 2))) \<and>
   getMode ready ''tsx'' = Inr (Some (Mode (LanguageMode 2)))"
  using init_script_modes_shared [of "fresh\<lparr>modes := Some []\<rparr>" "[]" example_factories]
  by (simp add: ready_def example_factories_def)

subsection \<open>Removing a document twice\<close>

text \<open>
  Claim C9. For every registry and document, \<open>onDocumentRemoved\<close> raises nothing the
  first time and nothing the second time, and the second call leaves the fields of
  the registry and every cache in the store as the first call left them. (Each call
  makes its hook calls again; what a mode does in its hook is outside the registry.)
\<close>

theorem onDocumentRemoved_twice:
  "fst (onDocumentRemoved s d) = Inr () \<and>
   fst (onDocumentRemoved (snd (onDocumentRemoved s d)) d) = Inr () \<and>
   modes (snd (onDocumentRemoved (snd (onDocumentRemoved s d)) d))
     = modes (snd (onDocumentRemoved s d)) \<and>
   documentRegions (snd (onDocumentRemoved (snd (onDocumentRemoved s d)) d))
     = documentRegions (snd (onDocumentRemoved s d)) \<and>
   modelCaches (snd (onDocumentRemoved (snd (onDocumentRemoved s d)) d))
     = modelCaches (snd (onDocumentRemoved s d)) \<and>
   store (snd (onDocumentRemoved (snd (onDocumentRemoved s d)) d))
     = store (snd (onDocumentRemoved s d))"
  by (simp add: onDocumentRemoved_ok onDocumentRemoved_fields cache_onDocumentRemoved_idem
        fun_eq_iff)

subsection \<open>The ranges of a document with their modes\<close>

text \<open>
  Claim C10, as the code has it. The claim holds on a registry whose table exists
  and for a document none of whose ranges has a \<open>languageId\<close> that names a property
  inherited from \<open>Object.prototype\<close>: \<open>getAllLanguageModeRangesInDocument\<close> returns a
  list which, with the \<open>mode\<close> field taken off every element, is the list of the
  document's ranges filtered to those whose dialect has an entry in the table: the
  same ranges in the same order with \<open>languageId\<close>, \<open>start\<close>, \<open>end\<close> and
  \<open>attributeValue\<close> unchanged. The \<open>mode\<close> of each element is the mode registered for
  its dialect.
\<close>

theorem ranges_paired_with_modes:
  assumes "modes s = Some m"
    and "\<forall>lr \<in> set (getAllLanguageRanges (fst (documentRegions_get s d))).
           languageId lr \<notin> set Object_prototype"
  shows "\<exists>rs. fst (getAllLanguageModeRangesInDocument s d) = Inr rs \<and>
           map LanguageRange.truncate rs =
             filter (\<lambda>lr. map_of m (languageId lr) \<noteq> None)
               (getAllLanguageRanges (fst (documentRegions_get s d))) \<and>
           (\<forall>r \<in> set rs. map_option Mode (map_of m (languageId r)) = Some (mode r))"
proof -
  let ?lrs = "getAllLanguageRanges (fst (documentRegions_get s d))"
  let ?rs = "map (\<lambda>lr. withMode (the (get_property m (languageId lr))) lr)
               (filter (\<lambda>lr. get_property m (languageId lr) \<noteq> None) ?lrs)"
  have m': "modes (snd (documentRegions_get s d)) = Some m"
    by (simp add: documentRegions_get_fields assms(1))
  have result: "fst (getAllLanguageModeRangesInDocument s d) = Inr ?rs"
    by (simp add: getAllLanguageModeRangesInDocument_eq pushRanges_Some [OF m'])
  have same: "get_property m (languageId lr) = map_option Mode (map_of m (languageId lr))"
    if "lr \<in> set ?lrs" for lr
    using assms(2) that by (auto simp: get_property_def split: option.splits)
  have "filter (\<lambda>lr. get_property m (languageId lr) \<noteq> None) ?lrs
      = filter (\<lambda>lr. map_of m (languageId lr) \<noteq> None) ?lrs"
    by (rule filter_cong) (simp_all add: same)
  moreover have "map LanguageRange.truncate
          (map (\<lambda>lr. withMode (the (get_property m (languageId lr))) lr) lrs) = lrs" for lrs
    by (induction lrs) (simp_all add: truncate_withMode)
  ultimately have ranges: "map LanguageRange.truncate ?rs
      = filter (\<lambda>lr. map_of m (languageId lr) \<noteq> None) ?lrs"
    by simp
  have modes: "\<forall>r \<in> set ?rs. map_option Mode (map_of m (languageId r)) = Some (mode r)"
  proof
    fix r assume r: "r \<in> set ?rs"
    then obtain lr where lr: "lr \<in> set ?lrs" and eq: "languageId r = languageId lr"
      by (auto simp: withMode_def)
    from r pushed_read [of m ?lrs] have "get_property m (languageId r) = Some (mode r)"
      by blast
    with same [OF lr] eq show "map_option Mode (map_of m (languageId r)) = Some (mode r)"
      by simp
  qed
  from result ranges modes show ?thesis by blast
qed

theorem ranges_paired_with_modes_witness:
  "modes ready = Some
     [(''vue'', LanguageMode 3), (''vue-html'', LanguageMode 1), (''css'', LanguageMode 4),
      (''postcss'', LanguageMode 5), (''scss'', LanguageMode 6), (''less'', LanguageMode 7),
      (''stylus'', LanguageMode 8), (''javascript'', LanguageMode 2),
      (''typescript'', LanguageMode 2), (''tsx'', LanguageMode 2)] \<and>
   getAllLanguageRanges (fst (documentRegions_get ready example_document)) =
     [\<lparr>languageId = ''vue-html'', start = \<lparr>line = 0, character = 0\<rparr>,
       range_end = \<lparr>line = 2, character = 11\<rparr>, attributeValue = None\<rparr>,
      \<lparr>languageId = ''sass'', start = \<lparr>line = 3, character = 0\<rparr>,
       range_end = \<lparr>line = 5, character = 8\<rparr>, attributeValue = None\<rparr>,
      \<lparr>languageId = ''typescript'', start = \<lparr>line = 6, character = 0\<rparr>,
       range_end = \<lparr>line = 9, character = 9\<rparr>, attributeValue = Some False\<rparr>] \<and>
   ''vue-html'' \<notin> set Object_prototype \<and> ''sass'' \<notin> set Object_prototype \<and>
   ''typescript'' \<notin> set Object_prototype \<and>
   fst (getAllLanguageModeRangesInDocument ready example_document) =
     Inr [\<lparr>languageId = ''vue-html'', start = \<lparr>line = 0, character = 0\<rparr>,
           range_end = \<lparr>line = 2, character = 11\<rparr>, attributeValue = None,
           mode = Mode (LanguageMode 1)\<rparr>,
          \<lparr>languageId = ''typescript'', start = \<lparr>line = 6, character = 0\<rparr>,
           range_end = \<lparr>line = 9, character = 9\<rparr>, attributeValue = Some False,
           mode = Mode (LanguageMode 2)\<rparr>]"
proof -
  have names: "\<forall>lr \<in> set (getAllLanguageRanges
                 (fst (documentRegions_get ready example_document))).
           languageId lr \<notin> set Object_prototype"
    by (simp add: regions_ready example_regions_def Object_prototype_def)
  from ranges_paired_with_modes [OF modes_ready names] show ?thesis
    by (simp add: modes_ready regions_ready ranges_ready example_regions_def
        Object_prototype_def)
qed

text \<open>
  The statement of C10 itself fails in two ways. In the document with the
  \<open>constructor\<close> region that identifier is no key of the table, yet the region is
  returned, paired with the inherited property, which is no mode. And on a registry
  without a table, here a new one after \<open>dispose\<close>, no dialect has a mode and the
  call raises instead of returning the empty list.
\<close>

theorem ranges_paired_with_modes_counterexample:
  "keys_in ready_inherited =
     [''vue'', ''vue-html'', ''css'', ''postcss'', ''scss'', ''less'', ''stylus'',
      ''javascript'', ''typescript'', ''tsx''] \<and>
   getAllLanguageRanges (fst (documentRegions_get ready_inherited example_document)) =
     [\<lparr>languageId = ''vue-html'', start = \<lparr>line = 0, character = 0\<rparr>,
       range_end = \<lparr>line = 2, character = 11\<rparr>, attributeValue = None\<rparr>,
      \<lparr>languageId = ''constructor'', start = \<lparr>line = 3, character = 0\<rparr>,
       range_end = \<lparr>line = 5, character = 9\<rparr>, attributeValue = None\<rparr>] \<and>
   fst (getAllLanguageModeRangesInDocument ready_inherited example_document) =
     Inr [\<lparr>languageId = ''vue-html'', start = \<lparr>line = 0, character = 0\<rparr>,
           range_end = \<lparr>line = 2, character = 11\<rparr>, attributeValue = None,
           mode = Mode (LanguageMode 1)\<rparr>,
          \<lparr>languageId = ''constructor'', start = \<lparr>line = 3, character = 0\<rparr>,
           range_end = \<lparr>line = 5, character = 9\<rparr>, attributeValue = None,
           mode = Inherited ''constructor''\<rparr>] \<and>
   keys_in (snd (dispose fresh)) = [] \<and>
   getAllLanguageRanges (fst (documentRegions_get (snd (dispose fresh)) example_document))
     \<noteq> [] \<and>
   fst (getAllLanguageModeRangesInDocument (snd (dispose fresh)) example_document)
     = Inl TypeError"
proof -
  have m: "modes (snd (dispose fresh)) = None"
    by (rule dispose_fields)
  have "modes (snd (documentRegions_get (snd (dispose fresh)) example_document)) = None"
    by (simp add: documentRegions_get_fields m)
  from pushRanges_None [OF this] ranges_disposed_fresh
  have "fst (getAllLanguageModeRangesInDocument (snd (dispose fresh)) example_document)
     = Inl TypeError"
    by (simp add: getAllLanguageModeRangesInDocument_eq)
  with ranges_disposed_fresh show ?thesis
    by (simp add: keys_in_def m modes_ready_inherited regions_ready_inherited
        ranges_ready_inherited inherited_regions_def)
qed

end
